theory Spec2Isabelle
  imports Complex_Main "HOL-Library.Multiset" "HOL-Library.Char_ord" "HOL-Library.List_Lexorder"
begin

section \<open>Python values\<close>

text \<open>
  The report generator \<^verbatim>\<open>scripts/generate_accountant_reports.py\<close> works on what
  \<^verbatim>\<open>json.load\<close> returns: \<^verbatim>\<open>None\<close>, booleans, numbers, strings, lists and dicts.
  A number is modelled by the rational it denotes, so \<^verbatim>\<open>5\<close> and \<^verbatim>\<open>5.0\<close> are one
  value and sums are exact: the rounding of binary floating point, NaN and the
  infinities are outside this model. A string is a list of HOL characters. A dict
  is an association list read with \<open>map_of\<close>.
\<close>

datatype json =
    JNull
  | JBool bool
  | JNum rat
  | JStr string
  | JList "json list"
  | JObj "(string \<times> json) list"

type_synonym txn = "(string \<times> json) list"

datatype error =
    TypeError
  | SliceError \<comment> \<open>\<^verbatim>\<open>d[:n]\<close> on a dict: TypeError before Python 3.12, KeyError from 3.12 on\<close>
  | AttributeError

definition seq :: "error + 'a \<Rightarrow> ('a \<Rightarrow> error + 'b) \<Rightarrow> error + 'b" where
  "seq m f = (case m of Inl e \<Rightarrow> Inl e | Inr x \<Rightarrow> f x)"

fun mapM :: "('a \<Rightarrow> error + 'b) \<Rightarrow> 'a list \<Rightarrow> error + 'b list" where
  "mapM f [] = Inr []"
| "mapM f (x # xs) = seq (f x) (\<lambda>y. seq (mapM f xs) (\<lambda>ys. Inr (y # ys)))"

fun filterM :: "('a \<Rightarrow> error + bool) \<Rightarrow> 'a list \<Rightarrow> error + 'a list" where
  "filterM p [] = Inr []"
| "filterM p (x # xs) =
     seq (p x) (\<lambda>b. seq (filterM p xs) (\<lambda>ys. Inr (if b then x # ys else ys)))"

fun foldM :: "('s \<Rightarrow> 'a \<Rightarrow> error + 's) \<Rightarrow> 's \<Rightarrow> 'a list \<Rightarrow> error + 's" where
  "foldM f s [] = Inr s"
| "foldM f s (x # xs) = seq (f s x) (\<lambda>s'. foldM f s' xs)"

text \<open>\<^verbatim>\<open>r.get(k, d)\<close> and \<^verbatim>\<open>r.get(k)\<close>.\<close>

definition get :: "txn \<Rightarrow> string \<Rightarrow> json \<Rightarrow> json" where
  "get r k d = (case map_of r k of None \<Rightarrow> d | Some v \<Rightarrow> v)"

definition get0 :: "txn \<Rightarrow> string \<Rightarrow> json" where
  "get0 r k = get r k JNull"

text \<open>Truth value testing, and \<^verbatim>\<open>v or d\<close>.\<close>

fun truthy :: "json \<Rightarrow> bool" where
  "truthy JNull = False"
| "truthy (JBool b) = b"
| "truthy (JNum q) = (q \<noteq> 0)"
| "truthy (JStr s) = (s \<noteq> [])"
| "truthy (JList xs) = (xs \<noteq> [])"
| "truthy (JObj kvs) = (kvs \<noteq> [])"

definition py_or :: "json \<Rightarrow> json \<Rightarrow> json" where
  "py_or v d = (if truthy v then v else d)"

text \<open>
  The operand of \<^verbatim>\<open>abs\<close>, \<^verbatim>\<open>+\<close> and \<^verbatim>\<open>> 500\<close>: a number, or a boolean (\<^verbatim>\<open>True\<close> is 1);
  anything else raises TypeError.
\<close>

fun num_of :: "json \<Rightarrow> error + rat" where
  "num_of (JNum q) = Inr q"
| "num_of (JBool b) = Inr (of_bool b)"
| "num_of _ = Inl TypeError"

text \<open>
  The keys of a dict in iteration order: each key once, at its first position.
\<close>

fun dict_keys :: "(string \<times> json) list \<Rightarrow> string list" where
  "dict_keys [] = []"
| "dict_keys ((k, v) # kvs) = k # filter (\<lambda>k'. k' \<noteq> k) (dict_keys kvs)"

fun str_of :: "json \<Rightarrow> error + string" where
  "str_of (JStr s) = Inr s"
| "str_of _ = Inl TypeError"

fun intercalate :: "string \<Rightarrow> string list \<Rightarrow> string" where
  "intercalate sep [] = []"
| "intercalate sep [x] = x"
| "intercalate sep (x # y # ys) = x @ sep @ intercalate sep (y # ys)"

text \<open>
  \<^verbatim>\<open>'; '.join(v or [])\<close>: a list must hold strings only, a string is joined character by
  character, a dict by its keys, and a number or \<^verbatim>\<open>True\<close> is not iterable.
\<close>

fun join_notes :: "json \<Rightarrow> error + string" where
  "join_notes v =
     (case py_or v (JList []) of
        JList xs \<Rightarrow> seq (mapM str_of xs) (\<lambda>ss. Inr (intercalate ''; '' ss))
      | JStr s \<Rightarrow> Inr (intercalate ''; '' (map (\<lambda>c. [c]) s))
      | JObj kvs \<Rightarrow> Inr (intercalate ''; '' (dict_keys kvs))
      | _ \<Rightarrow> Inl TypeError)"

text \<open>\<^verbatim>\<open>v[:n]\<close>.\<close>

fun slice :: "nat \<Rightarrow> json \<Rightarrow> error + json" where
  "slice n (JStr s) = Inr (JStr (take n s))"
| "slice n (JList xs) = Inr (JList (take n xs))"
| "slice n (JObj kvs) = Inl SliceError"
| "slice n _ = Inl TypeError"

section \<open>CSV files\<close>

text \<open>
  A cell is the value handed to \<^verbatim>\<open>csv.writer\<close>, before the writer turns it into text, or
  \<open>Money q\<close>, which stands for the text of \<^verbatim>\<open>f"${q:,.2f}"\<close>.
\<close>

datatype cell = Val json | Money rat

record csv =
  header :: "string list"
  rows :: "cell list list"

definition fld :: "txn \<Rightarrow> string \<Rightarrow> cell" where
  "fld r k = Val (get r k (JStr []))"

definition yes_no :: "json \<Rightarrow> cell" where
  "yes_no v = Val (JStr (if truthy v then ''Yes'' else ''No''))"

definition review :: "json \<Rightarrow> cell" where
  "review v = Val (JStr (if truthy v then ''YES - REVIEW'' else ''No''))"

definition str_cell :: "string \<Rightarrow> cell" where
  "str_cell s = Val (JStr s)"

definition nat_cell :: "nat \<Rightarrow> cell" where
  "nat_cell n = Val (JNum (of_nat n))"

subsection \<open>1. Master transaction list\<close>

definition master_header :: "string list" where
  "master_header =
     [''Financial Year'', ''Date'', ''Transaction ID'', ''Supplier'', ''Amount'',
      ''Description'', ''Category'', ''Category Confidence'',
      ''Deduction Type'', ''Claimable Amount'', ''Fully Deductible'',
      ''R&D Candidate'', ''R&D Confidence'', ''R&D Reasoning'',
      ''FBT Risk'', ''Div7A Risk'', ''Requires Documentation'',
      ''Compliance Notes'']"

definition master_row :: "txn \<Rightarrow> error + cell list" where
  "master_row r =
     seq (join_notes (get0 r ''compliance_notes'')) (\<lambda>notes.
     let desc = py_or (get0 r ''transaction_description'') (JStr []);
         reasoning = py_or (get0 r ''rnd_reasoning'') (JStr [])
     in seq (slice 100 desc) (\<lambda>desc100.
        seq (slice 150 reasoning) (\<lambda>reasoning150.
        Inr [fld r ''financial_year'',
             fld r ''transaction_date'',
             fld r ''transaction_id'',
             fld r ''supplier_name'',
             fld r ''transaction_amount'',
             Val desc100,
             fld r ''primary_category'',
             fld r ''category_confidence'',
             fld r ''deduction_type'',
             fld r ''claimable_amount'',
             yes_no (get0 r ''is_fully_deductible''),
             yes_no (get0 r ''is_rnd_candidate''),
             fld r ''rnd_confidence'',
             Val reasoning150,
             review (get0 r ''fbt_implications''),
             review (get0 r ''division7a_risk''),
             yes_no (get0 r ''requires_documentation''),
             str_cell (take 200 notes)])))"

subsection \<open>2. High-value deductions\<close>

definition is_high_value :: "txn \<Rightarrow> error + bool" where
  "is_high_value r =
     seq (num_of (py_or (get0 r ''claimable_amount'') (JNum 0))) (\<lambda>q. Inr (q > 500))"

definition hv_key :: "txn \<Rightarrow> json" where
  "hv_key x = get x ''claimable_amount'' (JNum 0)"

definition hv_header :: "string list" where
  "hv_header =
     [''PRIORITY'', ''Financial Year'', ''Date'', ''Supplier'', ''Amount'',
      ''Claimable'', ''Deduction Type'', ''Category'', ''Confidence'',
      ''Transaction ID'', ''Documentation Required'', ''Notes'']"

definition hv_row :: "nat \<times> txn \<Rightarrow> error + cell list" where
  "hv_row ir =
     (case ir of (i, r) \<Rightarrow>
        seq (join_notes (get0 r ''compliance_notes'')) (\<lambda>notes.
        Inr [nat_cell i,
             fld r ''financial_year'',
             fld r ''transaction_date'',
             fld r ''supplier_name'',
             fld r ''transaction_amount'',
             fld r ''claimable_amount'',
             fld r ''deduction_type'',
             fld r ''primary_category'',
             fld r ''deduction_confidence'',
             fld r ''transaction_id'',
             yes_no (get0 r ''requires_documentation''),
             str_cell (take 150 notes)]))"

subsection \<open>3. R&D candidates\<close>

definition is_rnd :: "txn \<Rightarrow> bool" where
  "is_rnd r = truthy (get0 r ''is_rnd_candidate'')"

definition rnd_key :: "txn \<Rightarrow> json" where
  "rnd_key x = py_or (get x ''transaction_amount'' (JNum 0)) (JNum 0)"

definition rnd_header :: "string list" where
  "rnd_header =
     [''Financial Year'', ''Date'', ''Supplier'', ''Amount'',
      ''Activity Type'', ''R&D Confidence'', ''Meets Div355'',
      ''Outcome Unknown'', ''Systematic'', ''New Knowledge'', ''Scientific Method'',
      ''Reasoning'', ''Transaction ID'']"

definition rnd_row :: "txn \<Rightarrow> error + cell list" where
  "rnd_row r =
     (let reasoning = py_or (get0 r ''rnd_reasoning'') (JStr [])
      in seq (slice 200 reasoning) (\<lambda>reasoning200.
         Inr [fld r ''financial_year'',
              fld r ''transaction_date'',
              fld r ''supplier_name'',
              fld r ''transaction_amount'',
              fld r ''rnd_activity_type'',
              fld r ''rnd_confidence'',
              yes_no (get0 r ''meets_div355_criteria''),
              yes_no (get0 r ''div355_outcome_unknown''),
              yes_no (get0 r ''div355_systematic_approach''),
              yes_no (get0 r ''div355_new_knowledge''),
              yes_no (get0 r ''div355_scientific_method''),
              Val reasoning200,
              fld r ''transaction_id'']))"

subsection \<open>4. and 5. FBT and Division 7A review lists\<close>

definition is_fbt :: "txn \<Rightarrow> bool" where
  "is_fbt r = truthy (get0 r ''fbt_implications'')"

definition is_div7a :: "txn \<Rightarrow> bool" where
  "is_div7a r = truthy (get0 r ''division7a_risk'')"

definition review_header :: "string list" where
  "review_header =
     [''Financial Year'', ''Date'', ''Supplier'', ''Amount'',
      ''Category'', ''Description'', ''Compliance Notes'', ''Transaction ID'']"

definition review_row :: "txn \<Rightarrow> error + cell list" where
  "review_row r =
     seq (join_notes (get0 r ''compliance_notes'')) (\<lambda>notes.
     let desc = py_or (get0 r ''transaction_description'') (JStr [])
     in seq (slice 100 desc) (\<lambda>desc100.
        Inr [fld r ''financial_year'',
             fld r ''transaction_date'',
             fld r ''supplier_name'',
             fld r ''transaction_amount'',
             fld r ''primary_category'',
             Val desc100,
             str_cell (take 200 notes),
             fld r ''transaction_id'']))"

subsection \<open>Python dicts built by the summaries\<close>

text \<open>
  The two summaries group the records in a dict whose keys are field values. A key must
  be hashable (a list or a dict raises TypeError), and \<^verbatim>\<open>True\<close>, \<^verbatim>\<open>1\<close> and \<^verbatim>\<open>1.0\<close> are
  the same key. An entry holds the key as it is hashed, the key object stored at its
  first insertion, and the value; entries stand in insertion order.
\<close>

datatype hkey = KNone | KNum rat | KStr string

fun hash_key :: "json \<Rightarrow> error + hkey" where
  "hash_key JNull = Inr KNone"
| "hash_key (JBool b) = Inr (KNum (of_bool b))"
| "hash_key (JNum q) = Inr (KNum q)"
| "hash_key (JStr s) = Inr (KStr s)"
| "hash_key (JList xs) = Inl TypeError"
| "hash_key (JObj kvs) = Inl TypeError"

type_synonym 'v pydict = "(hkey \<times> json \<times> 'v) list"

definition has_key :: "hkey \<Rightarrow> 'v pydict \<Rightarrow> bool" where
  "has_key k d = (k \<in> fst ` set d)"

definition upd :: "hkey \<Rightarrow> ('v \<Rightarrow> 'v) \<Rightarrow> 'v pydict \<Rightarrow> 'v pydict" where
  "upd k f d = map (\<lambda>(k', obj, v). if k' = k then (k', obj, f v) else (k', obj, v)) d"

definition amount_of :: "txn \<Rightarrow> string \<Rightarrow> error + rat" where
  "amount_of r k = num_of (py_or (get r k (JNum 0)) (JNum 0))"

subsection \<open>6. Summary by financial year\<close>

record fy_acc =
  fy_count :: nat
  fy_total :: rat
  fy_claimable :: rat
  fy_rnd :: nat
  fy_fbt :: nat
  fy_div7a :: nat

definition fy_zero :: fy_acc where
  "fy_zero = \<lparr>fy_count = 0, fy_total = 0, fy_claimable = 0, fy_rnd = 0, fy_fbt = 0, fy_div7a = 0\<rparr>"

definition fy_step :: "fy_acc pydict \<Rightarrow> txn \<Rightarrow> error + fy_acc pydict" where
  "fy_step by_fy r =
     (let fy = get r ''financial_year'' (JStr ''Unknown'')
      in seq (hash_key fy) (\<lambda>k.
         let by_fy1 = (if \<not> has_key k by_fy then by_fy @ [(k, fy, fy_zero)] else by_fy);
             by_fy2 = upd k (\<lambda>d. d\<lparr>fy_count := fy_count d + 1\<rparr>) by_fy1
         in seq (amount_of r ''transaction_amount'') (\<lambda>t.
            let by_fy3 = upd k (\<lambda>d. d\<lparr>fy_total := fy_total d + \<bar>t\<bar>\<rparr>) by_fy2
            in seq (amount_of r ''claimable_amount'') (\<lambda>c.
               let by_fy4 = upd k (\<lambda>d. d\<lparr>fy_claimable := fy_claimable d + c\<rparr>) by_fy3;
                   by_fy5 = (if truthy (get0 r ''is_rnd_candidate'')
                             then upd k (\<lambda>d. d\<lparr>fy_rnd := fy_rnd d + 1\<rparr>) by_fy4 else by_fy4);
                   by_fy6 = (if truthy (get0 r ''fbt_implications'')
                             then upd k (\<lambda>d. d\<lparr>fy_fbt := fy_fbt d + 1\<rparr>) by_fy5 else by_fy5);
                   by_fy7 = (if truthy (get0 r ''division7a_risk'')
                             then upd k (\<lambda>d. d\<lparr>fy_div7a := fy_div7a d + 1\<rparr>) by_fy6 else by_fy6)
               in Inr by_fy7))))"

text \<open>
  \<^verbatim>\<open>sorted(by_fy.keys())\<close>: strings are ordered among themselves and numbers among
  themselves; two keys of different kinds, or \<^verbatim>\<open>None\<close> and any other key, raise
  TypeError. The keys of a dict are pairwise different, so a single key is never
  compared.
\<close>

fun is_KStr :: "hkey \<Rightarrow> bool" where
  "is_KStr (KStr s) = True"
| "is_KStr _ = False"

fun is_KNum :: "hkey \<Rightarrow> bool" where
  "is_KNum (KNum q) = True"
| "is_KNum _ = False"

fun the_KStr :: "hkey \<Rightarrow> string" where
  "the_KStr (KStr s) = s"
| "the_KStr _ = []"

fun the_KNum :: "hkey \<Rightarrow> rat" where
  "the_KNum (KNum q) = q"
| "the_KNum _ = 0"

definition py_sorted :: "'v pydict \<Rightarrow> error + 'v pydict" where
  "py_sorted d =
     (if length d \<le> 1 then Inr d
      else if list_all (\<lambda>e. is_KStr (fst e)) d then Inr (sort_key (\<lambda>e. the_KStr (fst e)) d)
      else if list_all (\<lambda>e. is_KNum (fst e)) d then Inr (sort_key (\<lambda>e. the_KNum (fst e)) d)
      else Inl TypeError)"

definition fy_header :: "string list" where
  "fy_header =
     [''Financial Year'', ''Transaction Count'', ''Total Amount'', ''Claimable Amount'',
      ''R&D Candidates'', ''FBT Issues'', ''Div7A Issues'']"

definition fy_row :: "hkey \<times> json \<times> fy_acc \<Rightarrow> cell list" where
  "fy_row e =
     (case e of (k, fy, d) \<Rightarrow>
        [Val fy, nat_cell (fy_count d), Money (fy_total d), Money (fy_claimable d),
         nat_cell (fy_rnd d), nat_cell (fy_fbt d), nat_cell (fy_div7a d)])"

subsection \<open>7. Deductions by category\<close>

record cat_acc =
  cat_count :: nat
  cat_total :: rat
  cat_claimable :: rat

definition cat_zero :: cat_acc where
  "cat_zero = \<lparr>cat_count = 0, cat_total = 0, cat_claimable = 0\<rparr>"

definition cat_step :: "cat_acc pydict \<Rightarrow> txn \<Rightarrow> error + cat_acc pydict" where
  "cat_step by_cat r =
     (let cat = get r ''primary_category'' (JStr ''Unknown'')
      in seq (hash_key cat) (\<lambda>k.
         let by_cat1 = (if \<not> has_key k by_cat then by_cat @ [(k, cat, cat_zero)] else by_cat);
             by_cat2 = upd k (\<lambda>d. d\<lparr>cat_count := cat_count d + 1\<rparr>) by_cat1
         in seq (amount_of r ''transaction_amount'') (\<lambda>t.
            let by_cat3 = upd k (\<lambda>d. d\<lparr>cat_total := cat_total d + \<bar>t\<bar>\<rparr>) by_cat2
            in seq (amount_of r ''claimable_amount'') (\<lambda>c.
               Inr (upd k (\<lambda>d. d\<lparr>cat_claimable := cat_claimable d + c\<rparr>) by_cat3)))))"

text \<open>
  A sort with \<^verbatim>\<open>reverse=True\<close> keeps equal keys in their original order: CPython
  reverses the list, sorts it stably in ascending order, and reverses it again.
\<close>

definition sort_desc :: "('a \<Rightarrow> rat) \<Rightarrow> 'a list \<Rightarrow> 'a list" where
  "sort_desc key xs = rev (sort_key key (rev xs))"

definition cat_header :: "string list" where
  "cat_header = [''Category'', ''Transaction Count'', ''Total Amount'', ''Claimable Amount'']"

definition cat_row :: "hkey \<times> json \<times> cat_acc \<Rightarrow> cell list" where
  "cat_row e =
     (case e of (k, cat, d) \<Rightarrow>
        [Val cat, nat_cell (cat_count d), Money (cat_total d), Money (cat_claimable d)])"

section \<open>The store and the file system\<close>

text \<open>
  \<^verbatim>\<open>list.sort\<close> works in place, so the lists live in a store: an address is an index into
  \<open>heap\<close>, and a new list is put at the end. The code only ever reads a record
  (\<^verbatim>\<open>r.get\<close>), so the records are values. The file system maps a path to the file written
  there; \<^verbatim>\<open>os.makedirs\<close>, the messages printed and the failures of the operating system
  are not modelled. When the code raises, the model returns the exception alone: it does
  not say which files were written before.
\<close>

record state =
  heap :: "txn list list"
  files :: "(string \<times> csv) list"

definition alloc :: "txn list \<Rightarrow> state \<Rightarrow> nat \<times> state" where
  "alloc xs s = (length (heap s), s\<lparr>heap := heap s @ [xs]\<rparr>)"

text \<open>
  \<^verbatim>\<open>xs.sort(key=..., reverse=True)\<close> on the list at address \<open>a\<close>. The keys are computed
  once and compared as numbers. A key that is no number makes the model raise TypeError
  here. Python raises it here when two keys that cannot be compared meet; when they do
  not meet, the call raises TypeError all the same, in section 6, where \<^verbatim>\<open>abs\<close> is
  applied to the same value.
\<close>

definition py_sort_desc :: "(txn \<Rightarrow> json) \<Rightarrow> txn list \<Rightarrow> error + txn list" where
  "py_sort_desc key xs =
     seq (mapM (\<lambda>x. num_of (key x)) xs) (\<lambda>ks. Inr (map snd (sort_desc fst (zip ks xs))))"

definition sort_in_place :: "nat \<Rightarrow> (txn \<Rightarrow> json) \<Rightarrow> state \<Rightarrow> error + state" where
  "sort_in_place a key s =
     seq (py_sort_desc key (heap s ! a)) (\<lambda>ys. Inr (s\<lparr>heap := (heap s)[a := ys]\<rparr>))"

definition write_csv :: "string \<Rightarrow> csv \<Rightarrow> state \<Rightarrow> state" where
  "write_csv path f s = s\<lparr>files := (path, f) # filter (\<lambda>e. fst e \<noteq> path) (files s)\<rparr>"

definition read_csv :: "state \<Rightarrow> string \<Rightarrow> csv option" where
  "read_csv s path = map_of (files s) path"

definition report_path :: "string \<Rightarrow> string \<Rightarrow> string \<Rightarrow> string" where
  "report_path output_dir company_name suffix = output_dir @ ''/'' @ company_name @ suffix"

definition suffixes :: "string list" where
  "suffixes =
     [''_All_Transactions.csv'', ''_High_Value_Deductions.csv'', ''_RnD_Candidates.csv'',
      ''_FBT_Review_Required.csv'', ''_Division7A_Review.csv'', ''_Summary_By_FY.csv'',
      ''_By_Category.csv'']"

record stats =
  total_transactions :: nat
  high_value :: nat
  rnd_candidates :: nat
  fbt_issues :: nat
  div7a_issues :: nat

section \<open>generate_csv_reports and load_json\<close>

definition generate_csv_reports :: "nat \<Rightarrow> string \<Rightarrow> string \<Rightarrow> state \<Rightarrow> error + stats \<times> state" where
  "generate_csv_reports results company_name output_dir s0 =
     seq (mapM master_row (heap s0 ! results)) (\<lambda>master_rows.
     let s1 = write_csv (report_path output_dir company_name ''_All_Transactions.csv'')
                \<lparr>header = master_header, rows = master_rows\<rparr> s0
     in seq (filterM is_high_value (heap s1 ! results)) (\<lambda>hv.
     let (high_value, s2) = alloc hv s1
     in seq (sort_in_place high_value hv_key s2) (\<lambda>s3.
        seq (mapM hv_row (enumerate 1 (heap s3 ! high_value))) (\<lambda>hv_rows.
     let s4 = write_csv (report_path output_dir company_name ''_High_Value_Deductions.csv'')
                \<lparr>header = hv_header, rows = hv_rows\<rparr> s3;
         (rnd, s5) = alloc (filter is_rnd (heap s4 ! results)) s4
     in seq (sort_in_place rnd rnd_key s5) (\<lambda>s6.
        seq (mapM rnd_row (heap s6 ! rnd)) (\<lambda>rnd_rows.
     let s7 = write_csv (report_path output_dir company_name ''_RnD_Candidates.csv'')
                \<lparr>header = rnd_header, rows = rnd_rows\<rparr> s6;
         (fbt, s8) = alloc (filter is_fbt (heap s7 ! results)) s7
     in seq (mapM review_row (heap s8 ! fbt)) (\<lambda>fbt_rows.
     let s9 = write_csv (report_path output_dir company_name ''_FBT_Review_Required.csv'')
                \<lparr>header = review_header, rows = fbt_rows\<rparr> s8;
         (div7a, s10) = alloc (filter is_div7a (heap s9 ! results)) s9
     in seq (mapM review_row (heap s10 ! div7a)) (\<lambda>div7a_rows.
     let s11 = write_csv (report_path output_dir company_name ''_Division7A_Review.csv'')
                 \<lparr>header = review_header, rows = div7a_rows\<rparr> s10
     in seq (foldM fy_step [] (heap s11 ! results)) (\<lambda>by_fy.
        seq (py_sorted by_fy) (\<lambda>fys.
     let s12 = write_csv (report_path output_dir company_name ''_Summary_By_FY.csv'')
                 \<lparr>header = fy_header, rows = map fy_row fys\<rparr> s11
     in seq (foldM cat_step [] (heap s12 ! results)) (\<lambda>by_cat.
     let cats = sort_desc (\<lambda>e. cat_claimable (snd (snd e))) by_cat;
         s13 = write_csv (report_path output_dir company_name ''_By_Category.csv'')
                 \<lparr>header = cat_header, rows = map cat_row cats\<rparr> s12
     in Inr (\<lparr>total_transactions = length (heap s13 ! results),
              high_value = length (heap s13 ! high_value),
              rnd_candidates = length (heap s13 ! rnd),
              fbt_issues = length (heap s13 ! fbt),
              div7a_issues = length (heap s13 ! div7a)\<rparr>, s13))))))))))))"




section \<open>Notions used in the statements\<close>




definition objs_ok :: "'v pydict \<Rightarrow> bool" where
  "objs_ok d = list_all (\<lambda>e. hash_key (fst (snd e)) = Inr (fst e)) d"





text \<open>
  The seven files of one call, written in the order of \<open>suffixes\<close>, and what an observer
  of a call sees: the exception, or the statistics returned and the seven files.
\<close>

definition written :: "string \<Rightarrow> string \<Rightarrow> csv list \<Rightarrow> state \<Rightarrow> state" where
  "written output_dir company_name fs s =
     fold (\<lambda>e. write_csv (report_path output_dir company_name (fst e)) (snd e)) (zip suffixes fs) s"

definition report_paths :: "string \<Rightarrow> string \<Rightarrow> string list" where
  "report_paths output_dir company_name = map (report_path output_dir company_name) suffixes"









section \<open>An example run\<close>

text \<open>
  Three records of company \<open>D\<close>, exported to the directory \<open>o\<close>: a refund that is an
  R&D candidate, a laptop, and a lunch with FBT implications and no claimable amount.
\<close>

definition refund :: txn where
  "refund =
     [(''financial_year'', JStr ''B''), (''transaction_amount'', JNum (- 100)),
      (''claimable_amount'', JNum 600), (''is_rnd_candidate'', JBool True),
      (''primary_category'', JStr ''S'')]"

definition laptop :: txn where
  "laptop =
     [(''financial_year'', JStr ''A''), (''transaction_amount'', JNum 250),
      (''claimable_amount'', JNum 900), (''is_rnd_candidate'', JBool True)]"

definition lunch :: txn where
  "lunch =
     [(''financial_year'', JStr ''B''), (''transaction_amount'', JNum 40),
      (''fbt_implications'', JBool True)]"

definition example_store :: state where
  "example_store = \<lparr>heap = [[refund, laptop, lunch]], files = []\<rparr>"

definition example_master :: "cell list list" where
  "example_master =
     [[Val (JStr ''B''), Val (JStr []), Val (JStr []), Val (JStr []),
       Val (JNum (- 100)), Val (JStr []), Val (JStr ''S''), Val (JStr []),
       Val (JStr []), Val (JNum 600), Val (JStr ''No''), Val (JStr ''Yes''),
       Val (JStr []), Val (JStr []), Val (JStr ''No''), Val (JStr ''No''),
       Val (JStr ''No''), Val (JStr [])],
      [Val (JStr ''A''), Val (JStr []), Val (JStr []), Val (JStr []),
       Val (JNum 250), Val (JStr []), Val (JStr []), Val (JStr []),
       Val (JStr []), Val (JNum 900), Val (JStr ''No''), Val (JStr ''Yes''),
       Val (JStr []), Val (JStr []), Val (JStr ''No''), Val (JStr ''No''),
       Val (JStr ''No''), Val (JStr [])],
      [Val (JStr ''B''), Val (JStr []), Val (JStr []), Val (JStr []),
       Val (JNum 40), Val (JStr []), Val (JStr []), Val (JStr []),
       Val (JStr []), Val (JStr []), Val (JStr ''No''), Val (JStr ''No''),
       Val (JStr []), Val (JStr []), Val (JStr ''YES - REVIEW''),
       Val (JStr ''No''), Val (JStr ''No''), Val (JStr [])]]"

definition example_hv :: "cell list list" where
  "example_hv =
     [[Val (JNum 1), Val (JStr ''A''), Val (JStr []), Val (JStr []),
       Val (JNum 250), Val (JNum 900), Val (JStr []), Val (JStr []),
       Val (JStr []), Val (JStr []), Val (JStr ''No''), Val (JStr [])],
      [Val (JNum 2), Val (JStr ''B''), Val (JStr []), Val (JStr []),
       Val (JNum (- 100)), Val (JNum 600), Val (JStr []), Val (JStr ''S''),
       Val (JStr []), Val (JStr []), Val (JStr ''No''), Val (JStr [])]]"

definition example_rnd :: "cell list list" where
  "example_rnd =
     [[Val (JStr ''A''), Val (JStr []), Val (JStr []), Val (JNum 250),
       Val (JStr []), Val (JStr []), Val (JStr ''No''), Val (JStr ''No''),
       Val (JStr ''No''), Val (JStr ''No''), Val (JStr ''No''),
       Val (JStr []), Val (JStr [])],
      [Val (JStr ''B''), Val (JStr []), Val (JStr []), Val (JNum (- 100)),
       Val (JStr []), Val (JStr []), Val (JStr ''No''), Val (JStr ''No''),
       Val (JStr ''No''), Val (JStr ''No''), Val (JStr ''No''),
       Val (JStr []), Val (JStr [])]]"

definition example_fbt :: "cell list list" where
  "example_fbt =
     [[Val (JStr ''B''), Val (JStr []), Val (JStr []), Val (JNum 40),
       Val (JStr []), Val (JStr []), Val (JStr []), Val (JStr [])]]"

definition example_fy :: "cell list list" where
  "example_fy =
     [[Val (JStr ''A''), Val (JNum 1), Money 250, Money 900, Val (JNum 1), Val (JNum 0), Val (JNum 0)],
      [Val (JStr ''B''), Val (JNum 2), Money 140, Money 600, Val (JNum 1), Val (JNum 1), Val (JNum 0)]]"

definition example_cat :: "cell list list" where
  "example_cat =
     [[Val (JStr ''Unknown''), Val (JNum 2), Money 290, Money 900],
      [Val (JStr ''S''), Val (JNum 1), Money 100, Money 600]]"

definition example_stats :: stats where
  "example_stats =
     \<lparr>total_transactions = 3, high_value = 2, rnd_candidates = 2, fbt_issues = 1,
      div7a_issues = 0\<rparr>"

definition example_final :: state where
  "example_final =
     \<lparr>heap = [[refund, laptop, lunch], [laptop, refund], [laptop, refund], [lunch], []],
      files =
        [(''o/D_By_Category.csv'', \<lparr>header = cat_header, rows = example_cat\<rparr>),
         (''o/D_Summary_By_FY.csv'', \<lparr>header = fy_header, rows = example_fy\<rparr>),
         (''o/D_Division7A_Review.csv'', \<lparr>header = review_header, rows = []\<rparr>),
         (''o/D_FBT_Review_Required.csv'', \<lparr>header = review_header, rows = example_fbt\<rparr>),
         (''o/D_RnD_Candidates.csv'', \<lparr>header = rnd_header, rows = example_rnd\<rparr>),
         (''o/D_High_Value_Deductions.csv'', \<lparr>header = hv_header, rows = example_hv\<rparr>),
         (''o/D_All_Transactions.csv'', \<lparr>header = master_header, rows = example_master\<rparr>)]\<rparr>"




section \<open>The result of a validator\<close>

text \<open>
  Modelled from the spec: the validators, with their \<^verbatim>\<open>validate\<close> operation and their
  \<^verbatim>\<open>generate_fix_instructions\<close> step, are not among the source files
  that this development embeds; only the report generator is. The specification gives the result as
  \<^verbatim>\<open>{valid, issues, warnings, fix_instructions}\<close>, has a parse failure end the call with a
  single issue, has any other exception caught at the boundary and turned into a single
  issue that carries its message, and has the fix instructions generated from the issues
  without any effect on \<^verbatim>\<open>valid\<close>. The checklist of a rule set and its remediation text
  are parameters here.
\<close>

record validation_result =
  valid :: bool
  issues :: "string list"
  warnings :: "string list"
  fix_instructions :: "string option"

datatype evaluation =
    Parse_failure string
  | Raised string
  | Checked "string list" "string list"

definition found :: "evaluation \<Rightarrow> string list \<times> string list" where
  "found ev =
     (case ev of
        Parse_failure msg \<Rightarrow> ([msg], [])
      | Raised msg \<Rightarrow> ([msg], [])
      | Checked iss wrn \<Rightarrow> (iss, wrn))"

definition validate :: "('i \<Rightarrow> evaluation) \<Rightarrow> (string list \<Rightarrow> string) \<Rightarrow> 'i \<Rightarrow> validation_result" where
  "validate rules generate_fix_instructions input =
     (let iss = fst (found (rules input)); wrn = snd (found (rules input))
      in \<lparr>valid = (iss = []),
          issues = iss,
          warnings = wrn,
          fix_instructions = (if iss = [] then None else Some (generate_fix_instructions iss))\<rparr>)"

section \<open>Sequencing, the store and the files\<close>

lemma seq_Inr [simp]: "seq (Inr x) f = f x"
  by (simp add: seq_def)

lemma seq_Inl [simp]: "seq (Inl e) f = Inl e"
  by (simp add: seq_def)

lemma seq_eq_Inr: "seq m f = Inr y \<longleftrightarrow> (\<exists>x. m = Inr x \<and> f x = Inr y)"
  by (cases m) simp_all

lemma seq_assoc: "seq (seq m f) g = seq m (\<lambda>x. seq (f x) g)"
  by (cases m) simp_all

lemma mapM_eq_Inr: "mapM f xs = Inr ys \<longleftrightarrow> map f xs = map Inr ys"
proof (induction xs arbitrary: ys)
  case Nil
  show ?case by auto
next
  case (Cons x xs)
  show ?case
  proof (cases ys)
    case Nil
    then show ?thesis by (auto simp: seq_eq_Inr)
  next
    case (Cons y ys')
    then show ?thesis using Cons.IH [of ys'] by (auto simp: seq_eq_Inr)
  qed
qed


lemma filterM_eq_Inr:
  "filterM p xs = Inr ys \<Longrightarrow> ys = filter (\<lambda>x. p x = Inr True) xs"
proof (induction xs arbitrary: ys)
  case Nil
  then show ?case by simp
next
  case (Cons x xs)
  then show ?case by (auto simp: seq_eq_Inr)
qed



lemma heap_write_csv [simp]: "heap (write_csv p f s) = heap s"
  by (simp add: write_csv_def)

lemma write_csv_heap_update:
  "(write_csv p f s)\<lparr>heap := h\<rparr> = write_csv p f (s\<lparr>heap := h\<rparr>)"
  by (simp add: write_csv_def)

lemma map_of_filter_other:
  "map_of (filter (\<lambda>e. fst e \<noteq> p) xs) q = (if q = p then None else map_of xs q)"
  by (induction xs) auto

lemma read_csv_write_csv [simp]:
  "read_csv (write_csv p f s) q = (if q = p then Some f else read_csv s q)"
  by (simp add: read_csv_def write_csv_def map_of_filter_other)

lemma read_csv_heap_update [simp]: "read_csv (s\<lparr>heap := h\<rparr>) q = read_csv s q"
  by (simp add: read_csv_def)

lemma report_path_eq [simp]:
  "report_path output_dir company_name a = report_path output_dir company_name b \<longleftrightarrow> a = b"
  by (simp add: report_path_def)


lemma length_report_paths: "length (report_paths output_dir company_name) = 7"
  by (simp add: report_paths_def suffixes_def)

section \<open>The call, with the store resolved\<close>

text \<open>
  The list objects that the call creates sit at fresh addresses, so they never alias the
  list of results: every read of \<open>heap s ! results\<close> during the call sees the list
  that was passed.
\<close>

lemma generate_csv_reports_unfold:
  assumes "results < length (heap s0)"
  shows "generate_csv_reports results company_name output_dir s0 =
     (let rs = heap s0 ! results in
      seq (mapM master_row rs) (\<lambda>master_rows.
      seq (filterM is_high_value rs) (\<lambda>hv0.
      seq (py_sort_desc hv_key hv0) (\<lambda>hv.
      seq (mapM hv_row (enumerate 1 hv)) (\<lambda>hv_rows.
      seq (py_sort_desc rnd_key (filter is_rnd rs)) (\<lambda>rnd.
      seq (mapM rnd_row rnd) (\<lambda>rnd_rows.
      seq (mapM review_row (filter is_fbt rs)) (\<lambda>fbt_rows.
      seq (mapM review_row (filter is_div7a rs)) (\<lambda>div7a_rows.
      seq (foldM fy_step [] rs) (\<lambda>by_fy.
      seq (py_sorted by_fy) (\<lambda>fys.
      seq (foldM cat_step [] rs) (\<lambda>by_cat.
      Inr (\<lparr>total_transactions = length rs,
              high_value = length hv,
              rnd_candidates = length rnd,
              fbt_issues = length (filter is_fbt rs),
              div7a_issues = length (filter is_div7a rs)\<rparr>,
           written output_dir company_name
             [\<lparr>header = master_header, rows = master_rows\<rparr>,
              \<lparr>header = hv_header, rows = hv_rows\<rparr>,
              \<lparr>header = rnd_header, rows = rnd_rows\<rparr>,
              \<lparr>header = review_header, rows = fbt_rows\<rparr>,
              \<lparr>header = review_header, rows = div7a_rows\<rparr>,
              \<lparr>header = fy_header, rows = map fy_row fys\<rparr>,
              \<lparr>header = cat_header,
                 rows = map cat_row (sort_desc (\<lambda>e. cat_claimable (snd (snd e))) by_cat)\<rparr>]
             (s0\<lparr>heap := heap s0 @ [hv, rnd, filter is_fbt rs, filter is_div7a rs]\<rparr>))))))))))))))"
  using assms
  unfolding generate_csv_reports_def written_def suffixes_def
  by (simp add: Let_def alloc_def sort_in_place_def seq_assoc write_csv_heap_update nth_append)

lemma generate_csv_reports_Inr:
  assumes "results < length (heap s)"
      and "generate_csv_reports results company_name output_dir s = Inr (st, s')"
  obtains master_rows hv0 hv hv_rows rnd rnd_rows fbt_rows div7a_rows by_fy fys by_cat
  where "mapM master_row (heap s ! results) = Inr master_rows"
    and "filterM is_high_value (heap s ! results) = Inr hv0"
    and "py_sort_desc hv_key hv0 = Inr hv"
    and "mapM hv_row (enumerate 1 hv) = Inr hv_rows"
    and "py_sort_desc rnd_key (filter is_rnd (heap s ! results)) = Inr rnd"
    and "mapM rnd_row rnd = Inr rnd_rows"
    and "mapM review_row (filter is_fbt (heap s ! results)) = Inr fbt_rows"
    and "mapM review_row (filter is_div7a (heap s ! results)) = Inr div7a_rows"
    and "foldM fy_step [] (heap s ! results) = Inr by_fy"
    and "py_sorted by_fy = Inr fys"
    and "foldM cat_step [] (heap s ! results) = Inr by_cat"
    and "st = \<lparr>total_transactions = length (heap s ! results),
              high_value = length hv,
              rnd_candidates = length rnd,
              fbt_issues = length (filter is_fbt (heap s ! results)),
              div7a_issues = length (filter is_div7a (heap s ! results))\<rparr>"
    and "s' = written output_dir company_name
             [\<lparr>header = master_header, rows = master_rows\<rparr>,
              \<lparr>header = hv_header, rows = hv_rows\<rparr>,
              \<lparr>header = rnd_header, rows = rnd_rows\<rparr>,
              \<lparr>header = review_header, rows = fbt_rows\<rparr>,
              \<lparr>header = review_header, rows = div7a_rows\<rparr>,
              \<lparr>header = fy_header, rows = map fy_row fys\<rparr>,
              \<lparr>header = cat_header,
                 rows = map cat_row (sort_desc (\<lambda>e. cat_claimable (snd (snd e))) by_cat)\<rparr>]
             (s\<lparr>heap := heap s @ [hv, rnd, filter is_fbt (heap s ! results),
                                   filter is_div7a (heap s ! results)]\<rparr>)"
proof -
  from assms(2) show ?thesis
    unfolding generate_csv_reports_unfold [OF assms(1)] Let_def seq_eq_Inr
    using that by blast
qed

lemma heap_written [simp]: "heap (written output_dir company_name fs s) = heap s"
proof -
  have "heap (fold (\<lambda>e. write_csv (report_path output_dir company_name (fst e)) (snd e)) es s) = heap s"
    for es by (induction es arbitrary: s) simp_all
  then show ?thesis by (simp add: written_def)
qed


section \<open>Sorting in descending order\<close>

lemma mset_sort_desc [simp]: "mset (sort_desc key xs) = mset xs"
  by (simp add: sort_desc_def)

lemma set_sort_desc [simp]: "set (sort_desc key xs) = set xs"
  by (simp add: sort_desc_def)

lemma sorted_sort_desc: "sorted_wrt (\<ge>) (map key (sort_desc key xs))"
proof -
  have "sorted (map key (sort_key key (rev xs)))"
    by (rule sorted_sort_key)
  then have "sorted_wrt (\<lambda>x y. y \<le> x) (rev (map key (sort_key key (rev xs))))"
    by (simp add: sorted_wrt_rev)
  then show ?thesis
    by (simp add: sort_desc_def rev_map)
qed

lemma py_sort_desc_Inr:
  assumes "py_sort_desc key xs = Inr ys"
  shows "mset ys = mset xs"
    and "\<exists>ks. map (\<lambda>x. num_of (key x)) ys = map Inr ks \<and> sorted_wrt (\<ge>) ks"
proof -
  from assms obtain ks0 where ks0: "map (\<lambda>x. num_of (key x)) xs = map Inr ks0"
    and ys: "ys = map snd (sort_desc fst (zip ks0 xs))"
    by (auto simp: py_sort_desc_def seq_eq_Inr mapM_eq_Inr)
  from ks0 have len: "length ks0 = length xs"
    by (metis length_map)
  let ?ps = "sort_desc fst (zip ks0 xs)"
  have "mset ys = mset (map snd (zip ks0 xs))"
    unfolding ys by simp
  also have "\<dots> = mset xs"
    using len by simp
  finally show "mset ys = mset xs" .
  have pair: "num_of (key x) = Inr k" if "(k, x) \<in> set (zip ks0 xs)" for k x
  proof -
    from that obtain i where i: "i < length xs" "ks0 ! i = k" "xs ! i = x"
      using len by (auto simp: set_zip)
    from ks0 i(1) have "map (\<lambda>x. num_of (key x)) xs ! i = map Inr ks0 ! i"
      by simp
    with i len show ?thesis by simp
  qed
  have "map (\<lambda>x. num_of (key x)) ys = map Inr (map fst ?ps)"
    unfolding ys using pair by (auto simp: comp_def)
  moreover have "sorted_wrt (\<ge>) (map fst ?ps)"
    by (rule sorted_sort_desc)
  ultimately show "\<exists>ks. map (\<lambda>x. num_of (key x)) ys = map Inr ks \<and> sorted_wrt (\<ge>) ks"
    by blast
qed


section \<open>Amounts\<close>






section \<open>The example run, evaluated\<close>

lemmas row_defs =
  master_row_def hv_row_def rnd_row_def review_row_def get0_def get_def py_or_def
  fld_def yes_no_def review_def str_cell_def nat_cell_def

lemmas example_records = refund_def laptop_def lunch_def

lemma example_master_rows: "mapM master_row [refund, laptop, lunch] = Inr example_master"
  by (simp add: row_defs example_records example_master_def)

lemma example_high_value: "filterM is_high_value [refund, laptop, lunch] = Inr [refund, laptop]"
  by (simp add: is_high_value_def get0_def get_def py_or_def example_records)

lemma example_hv_sorted: "py_sort_desc hv_key [refund, laptop] = Inr [laptop, refund]"
  by (simp add: py_sort_desc_def sort_desc_def hv_key_def get_def example_records)

lemma example_hv_rows: "mapM hv_row (enumerate 1 [laptop, refund]) = Inr example_hv"
  by (simp add: row_defs example_records example_hv_def)

lemma example_is_rnd: "filter is_rnd [refund, laptop, lunch] = [refund, laptop]"
  by (simp add: is_rnd_def get0_def get_def example_records)

lemma example_rnd_sorted: "py_sort_desc rnd_key [refund, laptop] = Inr [laptop, refund]"
  by (simp add: py_sort_desc_def sort_desc_def rnd_key_def get_def py_or_def example_records)

lemma example_rnd_rows: "mapM rnd_row [laptop, refund] = Inr example_rnd"
  by (simp add: row_defs example_records example_rnd_def)

lemma example_is_fbt: "filter is_fbt [refund, laptop, lunch] = [lunch]"
  by (simp add: is_fbt_def get0_def get_def example_records)

lemma example_is_div7a: "filter is_div7a [refund, laptop, lunch] = []"
  by (simp add: is_div7a_def get0_def get_def example_records)

lemma example_fbt_rows: "mapM review_row [lunch] = Inr example_fbt"
  by (simp add: row_defs example_records example_fbt_def)

lemma example_by_fy:
  "foldM fy_step [] [refund, laptop, lunch] =
     Inr [(KStr ''B'', JStr ''B'',
           \<lparr>fy_count = 2, fy_total = 140, fy_claimable = 600, fy_rnd = 1, fy_fbt = 1, fy_div7a = 0\<rparr>),
          (KStr ''A'', JStr ''A'',
           \<lparr>fy_count = 1, fy_total = 250, fy_claimable = 900, fy_rnd = 1, fy_fbt = 0, fy_div7a = 0\<rparr>)]"
  by (simp add: fy_step_def get0_def get_def py_or_def amount_of_def has_key_def upd_def
      fy_zero_def example_records)

lemma example_fy_sorted:
  "py_sorted [(KStr ''B'', JStr ''B'', x), (KStr ''A'', JStr ''A'', y)] =
     Inr [(KStr ''A'', JStr ''A'', y), (KStr ''B'', JStr ''B'', x)]"
  by (simp add: py_sorted_def)

lemma example_by_cat:
  "foldM cat_step [] [refund, laptop, lunch] =
     Inr [(KStr ''S'', JStr ''S'', \<lparr>cat_count = 1, cat_total = 100, cat_claimable = 600\<rparr>),
          (KStr ''Unknown'', JStr ''Unknown'',
           \<lparr>cat_count = 2, cat_total = 290, cat_claimable = 900\<rparr>)]"
  by (simp add: cat_step_def get_def py_or_def amount_of_def has_key_def upd_def
      cat_zero_def example_records)

lemma example_run:
  "generate_csv_reports 0 ''D'' ''o'' example_store = Inr (example_stats, example_final)"
proof -
  have ref: "0 < length (heap example_store)"
    by (simp add: example_store_def)
  have rs: "heap example_store ! 0 = [refund, laptop, lunch]"
    by (simp add: example_store_def)
  show ?thesis
    unfolding generate_csv_reports_unfold [OF ref] Let_def rs
      example_master_rows example_high_value example_hv_sorted example_hv_rows
      example_is_rnd example_rnd_sorted example_rnd_rows example_is_fbt example_is_div7a
      example_fbt_rows example_by_fy example_fy_sorted example_by_cat seq_Inr mapM.simps(1)
    by (simp add: sort_desc_def fy_row_def cat_row_def nat_cell_def
        written_def suffixes_def write_csv_def report_path_def
        example_store_def example_stats_def example_final_def example_fy_def example_cat_def)
qed

section \<open>The high-value deductions and the R&D candidates\<close>





section \<open>The dicts of the two summaries\<close>

lemma map_fst_upd [simp]: "map fst (upd k f d) = map fst d"
  by (induction d) (auto simp: upd_def)

lemma has_key_upd [simp]: "has_key k (upd k' f d) = has_key k d"
  unfolding has_key_def by (metis map_fst_upd set_map)

lemma has_key_append [simp]: "has_key k (d @ [(k', obj, v)]) \<longleftrightarrow> k = k' \<or> has_key k d"
  by (auto simp: has_key_def)






lemma objs_ok_upd [simp]: "objs_ok (upd k f d) = objs_ok d"
  by (induction d) (auto simp: upd_def objs_ok_def split: if_splits)

lemma objs_ok_append [simp]:
  "objs_ok (d @ [(k, obj, v)]) \<longleftrightarrow> objs_ok d \<and> hash_key obj = Inr k"
  by (simp add: objs_ok_def)














section \<open>The two summaries\<close>










section \<open>Plain records never raise\<close>














section \<open>The seven files, the store and the observer\<close>





text \<open>
  Claim C7. A call that returns leaves every list that was in the store before it as it
  was, the list of results among them, with its records. The two sorted lists and the two
  review lists are four new lists, at addresses that were free before.
\<close>

theorem generate_csv_reports_frame:
  assumes "results < length (heap s)"
      and "generate_csv_reports results company_name output_dir s = Inr (st, s')"
  shows "heap s' ! results = heap s ! results
    \<and> take (length (heap s)) (heap s') = heap s
    \<and> (\<exists>hv rnd. heap s' = heap s @ [hv, rnd, filter is_fbt (heap s ! results),
                                       filter is_div7a (heap s ! results)]
         \<and> mset hv = mset (filter (\<lambda>r. is_high_value r = Inr True) (heap s ! results))
         \<and> mset rnd = mset (filter is_rnd (heap s ! results)))"
proof -
  let ?rs = "heap s ! results"
  from assms obtain master_rows hv0 hv hv_rows rnd rnd_rows fbt_rows div7a_rows by_fy fys by_cat
    where hv0: "filterM is_high_value ?rs = Inr hv0"
      and hv: "py_sort_desc hv_key hv0 = Inr hv"
      and rnd: "py_sort_desc rnd_key (filter is_rnd ?rs) = Inr rnd"
      and s': "s' = written output_dir company_name
             [\<lparr>header = master_header, rows = master_rows\<rparr>,
              \<lparr>header = hv_header, rows = hv_rows\<rparr>,
              \<lparr>header = rnd_header, rows = rnd_rows\<rparr>,
              \<lparr>header = review_header, rows = fbt_rows\<rparr>,
              \<lparr>header = review_header, rows = div7a_rows\<rparr>,
              \<lparr>header = fy_header, rows = map fy_row fys\<rparr>,
              \<lparr>header = cat_header,
                 rows = map cat_row (sort_desc (\<lambda>e. cat_claimable (snd (snd e))) by_cat)\<rparr>]
             (s\<lparr>heap := heap s @ [hv, rnd, filter is_fbt ?rs, filter is_div7a ?rs]\<rparr>)"
    by (rule generate_csv_reports_Inr)
  have h: "heap s' = heap s @ [hv, rnd, filter is_fbt ?rs, filter is_div7a ?rs]"
    unfolding s' by simp
  have "mset hv = mset (filter (\<lambda>r. is_high_value r = Inr True) ?rs)"
    using py_sort_desc_Inr(1) [OF hv] filterM_eq_Inr [OF hv0] by simp
  moreover have "mset rnd = mset (filter is_rnd ?rs)"
    using rnd by (rule py_sort_desc_Inr(1))
  moreover have "heap s' ! results = ?rs"
    using assms(1) by (simp add: h nth_append)
  moreover have "take (length (heap s)) (heap s') = heap s"
    by (simp add: h)
  ultimately show ?thesis
    using h by blast
qed

theorem generate_csv_reports_frame_witness:
  "0 < length (heap example_store)
   \<and> generate_csv_reports 0 ''D'' ''o'' example_store = Inr (example_stats, example_final)
   \<and> heap example_final ! 0 = heap example_store ! 0
   \<and> take (length (heap example_store)) (heap example_final) = heap example_store
   \<and> heap example_store ! 0 = [refund, laptop, lunch]
   \<and> heap example_final ! 1 = [laptop, refund]"
proof -
  have ref: "0 < length (heap example_store)"
    by (simp add: example_store_def)
  have "heap example_store ! 0 = [refund, laptop, lunch]"
    by (simp add: example_store_def)
  moreover have "heap example_final ! 1 = [laptop, refund]"
    by (simp add: example_final_def)
  ultimately show ?thesis
    using ref example_run generate_csv_reports_frame [OF ref example_run] by blast
qed







section \<open>The invariant of a validation result\<close>

text \<open>
  Claim C1. For the result that \<^verbatim>\<open>validate\<close> returns, \<^verbatim>\<open>valid\<close> holds exactly when there
  is no issue, fix instructions are present exactly when there is an issue, and the
  warnings have no effect on \<^verbatim>\<open>valid\<close>.
\<close>

theorem validation_result_invariant:
  "valid (validate rules fix input) = (issues (validate rules fix input) = [])
   \<and> (fix_instructions (validate rules fix input) \<noteq> None) = (issues (validate rules fix input) \<noteq> [])
   \<and> valid (validate (\<lambda>i. Checked iss wrn) fix input) =
       valid (validate (\<lambda>i. Checked iss wrn') fix input)"
  by (simp add: validate_def found_def Let_def)

end
